theory Spec2Isabelle
  imports Main "HOL-Library.Word"
begin

unbundle bit_operations_syntax

section \<open>The CHIP-8 machine of \<^verbatim>\<open>src/1.py\<close>\<close>

text \<open>
  The development embeds the class \<^verbatim>\<open>Chip8\<close>: its constructor, \<^verbatim>\<open>load_rom\<close>,
  \<^verbatim>\<open>emulate_cycle\<close> and \<^verbatim>\<open>set_keys\<close>. Python integers are unbounded, so every
  numeric attribute is an \<^typ>\<open>int\<close>; Python lists are HOL lists, read and written through
  Python's index rules (a negative index counts from the end, an index out of range raises
  \<^verbatim>\<open>IndexError\<close>). A call either returns or raises; in both cases the object keeps the
  mutations made so far, so a raise carries the state it leaves behind.
\<close>

subsection \<open>Constants\<close>

abbreviation CHIP8_MEMORY_SIZE :: nat where "CHIP8_MEMORY_SIZE \<equiv> 4096"
abbreviation CHIP8_REGISTER_COUNT :: nat where "CHIP8_REGISTER_COUNT \<equiv> 16"
abbreviation CHIP8_STACK_SIZE :: nat where "CHIP8_STACK_SIZE \<equiv> 16"
abbreviation CHIP8_KEYS :: nat where "CHIP8_KEYS \<equiv> 16"
abbreviation CHIP8_WIDTH :: nat where "CHIP8_WIDTH \<equiv> 64"
abbreviation CHIP8_HEIGHT :: nat where "CHIP8_HEIGHT \<equiv> 32"

definition CHIP8_FONTSET :: "int list" where
  "CHIP8_FONTSET =
    [0xF0, 0x90, 0x90, 0x90, 0xF0,
     0x20, 0x60, 0x20, 0x20, 0x70,
     0xF0, 0x10, 0xF0, 0x80, 0xF0,
     0xF0, 0x10, 0xF0, 0x10, 0xF0,
     0x90, 0x90, 0xF0, 0x10, 0x10,
     0xF0, 0x80, 0xF0, 0x10, 0xF0,
     0xF0, 0x80, 0xF0, 0x90, 0xF0,
     0xF0, 0x10, 0x20, 0x40, 0x40,
     0xF0, 0x90, 0xF0, 0x90, 0xF0,
     0xF0, 0x90, 0xF0, 0x10, 0xF0,
     0xF0, 0x90, 0xF0, 0x90, 0x90,
     0xE0, 0x90, 0xE0, 0x90, 0xE0,
     0xF0, 0x80, 0x80, 0x80, 0xF0,
     0xE0, 0x90, 0x90, 0x90, 0xE0,
     0xF0, 0x80, 0xF0, 0x80, 0xF0,
     0xF0, 0x80, 0xF0, 0x80, 0x80]"

subsection \<open>Python exceptions and list indexing\<close>

datatype py_error = IndexError | OSError

text \<open>\<^verbatim>\<open>xs[k]\<close>: the position a Python index denotes, or \<^verbatim>\<open>IndexError\<close>.\<close>

definition py_index :: "'a list \<Rightarrow> int \<Rightarrow> py_error + nat" where
  "py_index xs k =
     (if 0 \<le> k \<and> k < int (length xs) then Inr (nat k)
      else if k < 0 \<and> - int (length xs) \<le> k then Inr (nat (int (length xs) + k))
      else Inl IndexError)"

definition getitem :: "'a list \<Rightarrow> int \<Rightarrow> py_error + 'a" where
  "getitem xs k = (case py_index xs k of Inl e \<Rightarrow> Inl e | Inr p \<Rightarrow> Inr (xs ! p))"

definition setitem :: "'a list \<Rightarrow> int \<Rightarrow> 'a \<Rightarrow> py_error + 'a list" where
  "setitem xs k x = (case py_index xs k of Inl e \<Rightarrow> Inl e | Inr p \<Rightarrow> Inr (xs[p := x]))"

subsection \<open>The state of a \<^verbatim>\<open>Chip8\<close> object\<close>

record chip8 =
  memory :: "int list"
  v :: "int list"
  i :: int
  pc :: int
  gfx :: "int list"
  delay_timer :: int
  sound_timer :: int
  stack :: "int list"
  sp :: int
  keys :: "int list"
  draw_flag :: bool

text \<open>
  \<^verbatim>\<open>__init__\<close>: everything zero, the program counter at \<^verbatim>\<open>0x200\<close>, then the loop
  \<^verbatim>\<open>for i in range(len(CHIP8_FONTSET)): self.memory[i] = CHIP8_FONTSET[i]\<close>.
\<close>

definition load_fontset :: "int list \<Rightarrow> int list" where
  "load_fontset mem = foldl (\<lambda>m k. m[k := CHIP8_FONTSET ! k]) mem [0 ..< length CHIP8_FONTSET]"

definition chip8_init :: chip8 where
  "chip8_init =
     \<lparr> memory = load_fontset (replicate CHIP8_MEMORY_SIZE 0),
       v = replicate CHIP8_REGISTER_COUNT 0,
       i = 0,
       pc = 0x200,
       gfx = replicate (CHIP8_WIDTH * CHIP8_HEIGHT) 0,
       delay_timer = 0,
       sound_timer = 0,
       stack = replicate CHIP8_STACK_SIZE 0,
       sp = 0,
       keys = replicate CHIP8_KEYS 0,
       draw_flag = False \<rparr>"

subsection \<open>\<^verbatim>\<open>load_rom\<close>\<close>

text \<open>
  \<^verbatim>\<open>open(rom_path, 'rb')\<close> reads the file system, here a map from paths to the bytes of
  the file; a path it cannot open raises \<^verbatim>\<open>OSError\<close>. The loop
  \<^verbatim>\<open>for idx, byte in enumerate(rom): self.memory[0x200 + idx] = byte\<close> stores one byte
  per iteration and stops at the first store that raises, with the earlier stores done.
\<close>

type_synonym byte = "8 word"

fun store_rom :: "chip8 \<Rightarrow> nat \<Rightarrow> byte list \<Rightarrow> (py_error \<times> chip8) + chip8" where
  "store_rom s idx [] = Inr s"
| "store_rom s idx (b # bs) =
     (case setitem (memory s) (0x200 + int idx) (uint b) of
        Inl e \<Rightarrow> Inl (e, s)
      | Inr m \<Rightarrow> store_rom (s\<lparr>memory := m\<rparr>) (Suc idx) bs)"

definition load_rom :: "(string \<rightharpoonup> byte list) \<Rightarrow> chip8 \<Rightarrow> string \<Rightarrow> (py_error \<times> chip8) + chip8" where
  "load_rom fs s rom_path =
     (case fs rom_path of
        None \<Rightarrow> Inl (OSError, s)
      | Some rom \<Rightarrow> store_rom s 0 rom)"

subsection \<open>\<^verbatim>\<open>emulate_cycle\<close>\<close>

text \<open>The format specification \<^verbatim>\<open>{opcode:X}\<close>: upper-case hexadecimal, a minus sign first.\<close>

definition hex_digit :: "nat \<Rightarrow> char" where
  "hex_digit d = ''0123456789ABCDEF'' ! d"

fun hex_nat :: "nat \<Rightarrow> string" where
  "hex_nat n = (if n < 16 then [hex_digit n] else hex_nat (n div 16) @ [hex_digit (n mod 16)])"

declare hex_nat.simps [simp del]

definition format_X :: "int \<Rightarrow> string" where
  "format_X n = (if n < 0 then CHR ''-'' # hex_nat (nat (- n)) else hex_nat (nat n))"

text \<open>
  The fetch \<^verbatim>\<open>self.memory[self.pc] << 8 | self.memory[self.pc + 1]\<close>; the left operand
  is read first, and either read may raise.
\<close>

definition fetch :: "chip8 \<Rightarrow> py_error + int" where
  "fetch s =
     (case getitem (memory s) (pc s) of
        Inl e \<Rightarrow> Inl e
      | Inr hi \<Rightarrow>
          (case getitem (memory s) (pc s + 1) of
             Inl e \<Rightarrow> Inl e
           | Inr lo \<Rightarrow> Inr (push_bit 8 hi OR lo)))"

text \<open>
  The timer update that ends the cycle. The first component collects the lines printed to
  standard output, in order.
\<close>

definition update_timers :: "string list \<Rightarrow> chip8 \<Rightarrow> string list \<times> chip8" where
  "update_timers out s =
     (let s1 = (if 0 < delay_timer s then s\<lparr>delay_timer := delay_timer s - 1\<rparr> else s) in
      if 0 < sound_timer s1 then
        (if sound_timer s1 = 1 then out @ [''BEEP!''] else out,
         s1\<lparr>sound_timer := sound_timer s1 - 1\<rparr>)
      else (out, s1))"

text \<open>
  One call of \<^verbatim>\<open>emulate_cycle\<close>: \<open>Inl (e, s')\<close> when it raises \<open>e\<close> and leaves the
  object as \<open>s'\<close>, \<open>Inr (out, s')\<close> when it returns having printed the lines \<open>out\<close>.
\<close>

definition emulate_cycle :: "chip8 \<Rightarrow> (py_error \<times> chip8) + (string list \<times> chip8)" where
  "emulate_cycle s =
     (case fetch s of
        Inl e \<Rightarrow> Inl (e, s)
      | Inr opcode \<Rightarrow>
          (let s1 = s\<lparr>pc := pc s + 2\<rparr> in
           if opcode = 0x00E0 then
             Inr (update_timers []
                    (s1\<lparr>gfx := replicate (CHIP8_WIDTH * CHIP8_HEIGHT) 0, draw_flag := True\<rparr>))
           else if opcode = 0x00EE then
             (let s2 = s1\<lparr>sp := sp s1 - 1\<rparr> in
              case getitem (stack s2) (sp s2) of
                Inl e \<Rightarrow> Inl (e, s2)
              | Inr a \<Rightarrow> Inr (update_timers [] (s2\<lparr>pc := a\<rparr>)))
           else
             Inr (update_timers [''Unknown opcode: '' @ format_X opcode] s1)))"

subsection \<open>\<^verbatim>\<open>set_keys\<close>\<close>

definition set_keys :: "chip8 \<Rightarrow> int list \<Rightarrow> chip8" where
  "set_keys s ks = s\<lparr>keys := ks\<rparr>"

subsection \<open>Drivers\<close>

text \<open>
  \<open>boot rom\<close> is the machine after \<^verbatim>\<open>Chip8()\<close> and \<^verbatim>\<open>load_rom\<close> of a regular file
  \<^verbatim>\<open>temp_rom.ch8\<close> that holds the bytes \<open>rom\<close> (as the load left it, had it raised).
\<close>

definition boot :: "byte list \<Rightarrow> chip8" where
  "boot rom =
     (case load_rom [''temp_rom.ch8'' \<mapsto> rom] chip8_init ''temp_rom.ch8'' of
        Inl (e, s) \<Rightarrow> s
      | Inr s \<Rightarrow> s)"

text \<open>
  Consecutive calls of \<^verbatim>\<open>emulate_cycle\<close>, the keypad replaced through \<^verbatim>\<open>set_keys\<close> by
  the next snapshot before each call. The run stops at the first call that raises; otherwise
  it returns everything printed and the last state.
\<close>

fun steps :: "int list list \<Rightarrow> chip8 \<Rightarrow> (py_error \<times> chip8) + (string list \<times> chip8)" where
  "steps [] s = Inr ([], s)"
| "steps (ks # kss) s =
     (case emulate_cycle (set_keys s ks) of
        Inl r \<Rightarrow> Inl r
      | Inr (out, s') \<Rightarrow>
          (case steps kss s' of
             Inl r \<Rightarrow> Inl r
           | Inr (out', s'') \<Rightarrow> Inr (out @ out', s'')))"

text \<open>The keypad with no key pressed, as \<^verbatim>\<open>__init__\<close> leaves it.\<close>

definition no_keys :: "int list" where
  "no_keys = replicate CHIP8_KEYS 0"

subsection \<open>The dispatch table of the specification\<close>

text \<open>
  The opcode patterns that section 4.2 of the specification lists, as a predicate on the
  fetched 16-bit word, to compare with the dispatch of \<^verbatim>\<open>emulate_cycle\<close>:
  \<^verbatim>\<open>00E0 00EE 1nnn 2nnn 3xkk 4xkk 5xy0 9xy0 6xkk 7xkk 8xy0..8xy7 8xyE Annn Bnnn Cxkk Dxyn
  Ex9E ExA1 Fx07 Fx0A Fx15 Fx18 Fx1E Fx29 Fx33 Fx55 Fx65\<close>.
\<close>

definition spec_listed_opcode :: "int \<Rightarrow> bool" where
  "spec_listed_opcode opcode =
     (0 \<le> opcode \<and> opcode < 0x10000 \<and>
      (let family = drop_bit 12 opcode; n = opcode AND 0xF; kk = opcode AND 0xFF in
         opcode = 0x00E0 \<or> opcode = 0x00EE
       \<or> family \<in> {1, 2, 3, 4, 6, 7, 0xA, 0xB, 0xC, 0xD}
       \<or> (family = 5 \<or> family = 9) \<and> n = 0
       \<or> family = 8 \<and> n \<in> {0, 1, 2, 3, 4, 5, 6, 7, 0xE}
       \<or> family = 0xE \<and> kk \<in> {0x9E, 0xA1}
       \<or> family = 0xF \<and> kk \<in> {0x07, 0x0A, 0x15, 0x18, 0x1E, 0x29, 0x33, 0x55, 0x65}))"

subsection \<open>The call inside the interpreter process\<close>

text \<open>
  What a call can reach beyond the object it is called on. The module imports \<^verbatim>\<open>random\<close>
  and \<^verbatim>\<open>time\<close> (lines 5 and 6): the state of the generator and the clock are what a call
  would read, and advance, through them; \<^verbatim>\<open>print\<close> appends a line to standard output.
\<close>

record process =
  stdout :: "string list"
  random_state :: nat
  clock :: nat

definition print_line :: "string \<Rightarrow> process \<Rightarrow> process" where
  "print_line l p = p\<lparr>stdout := stdout p @ [l]\<rparr>"

text \<open>
  \<^verbatim>\<open>emulate_cycle\<close> once more, statement by statement, with the process threaded through
  it: each \<^verbatim>\<open>print\<close> is a \<^verbatim>\<open>print_line\<close>, and no statement of lines 66 to 87 calls into
  \<^verbatim>\<open>random\<close> or \<^verbatim>\<open>time\<close>. The result is the process after the call and, as before, the
  exception with the state it leaves or the state returned.
\<close>

definition update_timers_in :: "process \<Rightarrow> chip8 \<Rightarrow> process \<times> chip8" where
  "update_timers_in p s =
     (let s1 = (if 0 < delay_timer s then s\<lparr>delay_timer := delay_timer s - 1\<rparr> else s) in
      if 0 < sound_timer s1 then
        (if sound_timer s1 = 1 then print_line ''BEEP!'' p else p,
         s1\<lparr>sound_timer := sound_timer s1 - 1\<rparr>)
      else (p, s1))"

definition emulate_cycle_in :: "process \<Rightarrow> chip8 \<Rightarrow> process \<times> ((py_error \<times> chip8) + chip8)" where
  "emulate_cycle_in p s =
     (case fetch s of
        Inl e \<Rightarrow> (p, Inl (e, s))
      | Inr opcode \<Rightarrow>
          (let s1 = s\<lparr>pc := pc s + 2\<rparr> in
           if opcode = 0x00E0 then
             (case update_timers_in p
                     (s1\<lparr>gfx := replicate (CHIP8_WIDTH * CHIP8_HEIGHT) 0, draw_flag := True\<rparr>) of
                (p', s') \<Rightarrow> (p', Inr s'))
           else if opcode = 0x00EE then
             (let s2 = s1\<lparr>sp := sp s1 - 1\<rparr> in
              case getitem (stack s2) (sp s2) of
                Inl e \<Rightarrow> (p, Inl (e, s2))
              | Inr a \<Rightarrow>
                  (case update_timers_in p (s2\<lparr>pc := a\<rparr>) of (p', s') \<Rightarrow> (p', Inr s')))
           else
             (case update_timers_in (print_line (''Unknown opcode: '' @ format_X opcode) p) s1 of
                (p', s') \<Rightarrow> (p', Inr s'))))"

subsection \<open>Machines used as concrete inputs\<close>

text \<open>A booted machine with an empty program, both timers running.\<close>

definition timer_machine :: chip8 where
  "timer_machine = (boot [])\<lparr>delay_timer := 5, sound_timer := 1\<rparr>"

text \<open>A booted machine whose program starts with \<^verbatim>\<open>00E0\<close>, the first pixel lit.\<close>

definition lit_machine :: chip8 where
  "lit_machine = (boot [0x00, 0xE0])\<lparr>gfx := (replicate (CHIP8_WIDTH * CHIP8_HEIGHT) 0)[0 := 1]\<rparr>"

text \<open>A booted machine whose program starts with \<^verbatim>\<open>5FFF\<close>, the delay timer running.\<close>

definition unknown_machine :: chip8 where
  "unknown_machine = (boot [0x5F, 0xFF])\<lparr>delay_timer := 3\<rparr>"

text \<open>
  A booted machine whose program starts with \<^verbatim>\<open>00EE\<close>, with a return address in
  \<^verbatim>\<open>stack[0]\<close> and the stack pointer at \<open>k\<close>.
\<close>

definition ret_machine :: "int \<Rightarrow> chip8" where
  "ret_machine k =
     (boot [0x00, 0xEE])\<lparr>stack := (replicate CHIP8_STACK_SIZE 0)[0 := 0x300], sp := k\<rparr>"

text \<open>A booted machine whose program is \<^verbatim>\<open>F30A\<close> (\<^verbatim>\<open>LD V3, K\<close>) and nothing else.\<close>

definition key_wait_machine :: chip8 where
  "key_wait_machine = boot [0xF3, 0x0A]"

text \<open>
  The machine booted with the program \<^verbatim>\<open>00 EE\<close>, with the stack pointer at \<open>k\<close> and the
  program counter at \<open>p\<close>.
\<close>

definition ret_loop :: "int \<Rightarrow> int \<Rightarrow> chip8" where
  "ret_loop k p = (boot [0x00, 0xEE])\<lparr>sp := k, pc := p\<rparr>"

text \<open>Two processes that differ in everything: output so far, generator and clock.\<close>

definition quiet_process :: process where
  "quiet_process = \<lparr>stdout = [], random_state = 1, clock = 0\<rparr>"

definition busy_process :: process where
  "busy_process = \<lparr>stdout = [''Chip-8 Emulator''], random_state = 42, clock = 1000\<rparr>"

section \<open>Properties\<close>

subsection \<open>Python indexing\<close>

lemma getitem_nonneg:
  "0 \<le> k \<Longrightarrow> k < int (length xs) \<Longrightarrow> getitem xs k = Inr (xs ! nat k)"
  by (simp add: getitem_def py_index_def)

lemma getitem_negative:
  "k < 0 \<Longrightarrow> - int (length xs) \<le> k \<Longrightarrow> getitem xs k = Inr (xs ! nat (int (length xs) + k))"
  by (simp add: getitem_def py_index_def)

lemma getitem_raises:
  "int (length xs) \<le> k \<or> k < - int (length xs) \<Longrightarrow> getitem xs k = Inl IndexError"
  by (auto simp add: getitem_def py_index_def)

lemma getitem_Inl_iff:
  "(getitem xs k = Inl e) = (e = IndexError \<and> (int (length xs) \<le> k \<or> k < - int (length xs)))"
  by (auto simp add: getitem_def py_index_def)

subsection \<open>The constructor\<close>

lemma length_foldl_update:
  "length (foldl (\<lambda>m k. m[k := f k]) mem ks) = length mem"
  by (induction ks arbitrary: mem) simp_all

lemma foldl_update_nth:
  "foldl (\<lambda>m k. m[k := f k]) mem [a ..< b] ! j =
     (if a \<le> j \<and> j < b \<and> j < length mem then f j else mem ! j)"
proof (induction b)
  case 0
  then show ?case by simp
next
  case (Suc b)
  show ?case
  proof (cases "a \<le> b")
    case False
    then show ?thesis by auto
  next
    case True
    let ?m = "foldl (\<lambda>m k. m[k := f k]) mem [a ..< b]"
    have len: "length ?m = length mem" by (rule length_foldl_update)
    show ?thesis
    proof (cases "b < length mem")
      case inside: True
      with True Suc len show ?thesis by (auto simp add: nth_list_update)
    next
      case outside: False
      with len have "?m[b := f b] = ?m" by (simp add: list_update_beyond)
      with True Suc outside show ?thesis by auto
    qed
  qed
qed

lemma length_load_fontset: "length (load_fontset mem) = length mem"
  by (simp add: load_fontset_def length_foldl_update)

lemma length_CHIP8_FONTSET: "length CHIP8_FONTSET = 80"
  by (simp add: CHIP8_FONTSET_def)

lemma load_fontset_nth:
  "load_fontset mem ! j = (if j < 80 \<and> j < length mem then CHIP8_FONTSET ! j else mem ! j)"
  by (simp add: load_fontset_def foldl_update_nth [where f = "\<lambda>k. CHIP8_FONTSET ! k"] length_CHIP8_FONTSET)

subsection \<open>The loop of \<^verbatim>\<open>load_rom\<close>\<close>

lemma store_rom_from:
  "p = 0x200 + idx \<Longrightarrow> p + length bs \<le> length (memory s) \<Longrightarrow>
   store_rom s idx bs =
     Inr (s\<lparr>memory := take p (memory s) @ map uint bs @ drop (p + length bs) (memory s)\<rparr>)"
proof (induction bs arbitrary: s idx p)
  case Nil
  then show ?case by simp
next
  case (Cons b bs)
  let ?m = "(memory s)[p := uint b]"
  from Cons.prems have p: "p < length (memory s)" by simp
  with Cons.prems have set: "setitem (memory s) (0x200 + int idx) (uint b) = Inr ?m"
    by (simp add: setitem_def py_index_def nat_add_distrib)
  have "store_rom (s\<lparr>memory := ?m\<rparr>) (Suc idx) bs =
          Inr (s\<lparr>memory := take (Suc p) ?m @ map uint bs @ drop (Suc p + length bs) ?m\<rparr>)"
    using Cons.IH [of "Suc p" "Suc idx" "s\<lparr>memory := ?m\<rparr>"] Cons.prems by simp
  moreover have "take (Suc p) ?m = take p (memory s) @ [uint b]"
    using p by (simp add: take_Suc_conv_app_nth)
  moreover have "drop (Suc p + length bs) ?m = drop (p + length (b # bs)) (memory s)"
    by simp
  ultimately show ?case using set by simp
qed

lemma store_rom_overflow_from:
  "p = 0x200 + idx \<Longrightarrow> p \<le> length (memory s) \<Longrightarrow> length (memory s) < p + length bs \<Longrightarrow>
   store_rom s idx bs =
     Inl (IndexError,
          s\<lparr>memory := take p (memory s) @ map uint (take (length (memory s) - p) bs)\<rparr>)"
proof (induction bs arbitrary: s idx p)
  case Nil
  then show ?case by simp
next
  case (Cons b bs)
  show ?case
  proof (cases "p < length (memory s)")
    case False
    with Cons.prems have eq: "length (memory s) = p" by simp
    with Cons.prems have "setitem (memory s) (0x200 + int idx) (uint b) = Inl IndexError"
      by (simp add: setitem_def py_index_def)
    moreover have "s\<lparr>memory := take p (memory s)\<rparr> = s" using eq by simp
    ultimately show ?thesis using eq by simp
  next
    case True
    let ?m = "(memory s)[p := uint b]"
    from True Cons.prems have set: "setitem (memory s) (0x200 + int idx) (uint b) = Inr ?m"
      by (simp add: setitem_def py_index_def nat_add_distrib)
    have "store_rom (s\<lparr>memory := ?m\<rparr>) (Suc idx) bs =
          Inl (IndexError,
               s\<lparr>memory := take (Suc p) ?m @ map uint (take (length ?m - Suc p) bs)\<rparr>)"
      using Cons.IH [of "Suc p" "Suc idx" "s\<lparr>memory := ?m\<rparr>"] Cons.prems True by simp
    moreover have "take (Suc p) ?m = take p (memory s) @ [uint b]"
      using True by (simp add: take_Suc_conv_app_nth)
    moreover have "take (length (memory s) - p) (b # bs) = b # take (length ?m - Suc p) bs"
      using True by (simp add: take_Cons')
    ultimately show ?thesis using set by simp
  qed
qed

subsection \<open>The timer update\<close>

lemma update_timers_eq:
  "update_timers out s =
     (if sound_timer s = 1 then out @ [''BEEP!''] else out,
      s\<lparr>delay_timer := (if 0 < delay_timer s then delay_timer s - 1 else delay_timer s),
        sound_timer := (if 0 < sound_timer s then sound_timer s - 1 else sound_timer s)\<rparr>)"
  by (simp add: update_timers_def Let_def)

subsection \<open>The fetch\<close>

lemma fetch_in_range:
  "0 \<le> pc s \<Longrightarrow> pc s + 1 < int (length (memory s)) \<Longrightarrow>
   fetch s = Inr (push_bit 8 (memory s ! nat (pc s)) OR memory s ! nat (pc s + 1))"
  by (simp add: fetch_def getitem_nonneg)

lemma fetch_Inl_iff:
  "(fetch s = Inl e) =
     (e = IndexError \<and> (int (length (memory s)) \<le> pc s + 1 \<or> pc s < - int (length (memory s))))"
  by (auto simp add: fetch_def getitem_def py_index_def split: sum.splits if_splits)

lemma fetch_raises_only_IndexError: "fetch s = Inl e \<Longrightarrow> e = IndexError"
  by (simp add: fetch_Inl_iff)

subsection \<open>The three branches of the dispatch\<close>

lemma emulate_cycle_fetch_raises:
  "fetch s = Inl e \<Longrightarrow> emulate_cycle s = Inl (e, s)"
  by (simp add: emulate_cycle_def)

lemma emulate_cycle_CLS:
  "fetch s = Inr 0x00E0 \<Longrightarrow>
   emulate_cycle s =
     Inr (update_timers []
            (s\<lparr>pc := pc s + 2, gfx := replicate (CHIP8_WIDTH * CHIP8_HEIGHT) 0, draw_flag := True\<rparr>))"
  by (simp add: emulate_cycle_def)

lemma emulate_cycle_RET:
  "fetch s = Inr 0x00EE \<Longrightarrow>
   emulate_cycle s =
     (case getitem (stack s) (sp s - 1) of
        Inl e \<Rightarrow> Inl (e, s\<lparr>pc := pc s + 2, sp := sp s - 1\<rparr>)
      | Inr a \<Rightarrow> Inr (update_timers [] (s\<lparr>sp := sp s - 1, pc := a\<rparr>)))"
  by (simp add: emulate_cycle_def Let_def split: sum.splits)

lemma emulate_cycle_unknown:
  "fetch s = Inr opcode \<Longrightarrow> opcode \<noteq> 0x00E0 \<Longrightarrow> opcode \<noteq> 0x00EE \<Longrightarrow>
   emulate_cycle s =
     Inr (update_timers [''Unknown opcode: '' @ format_X opcode] (s\<lparr>pc := pc s + 2\<rparr>))"
  by (simp add: emulate_cycle_def)

subsection \<open>The machine after construction and load\<close>

lemma length_memory_init: "length (memory chip8_init) = 4096"
  by (simp add: chip8_init_def length_load_fontset)

lemma memory_init_nth:
  "j < 4096 \<Longrightarrow> memory chip8_init ! j = (if j < 80 then CHIP8_FONTSET ! j else 0)"
  by (simp add: chip8_init_def load_fontset_nth)

lemma load_rom_fits:
  "fs rom_path = Some rom \<Longrightarrow> 0x200 + length rom \<le> length (memory s) \<Longrightarrow>
   load_rom fs s rom_path =
     Inr (s\<lparr>memory := take 0x200 (memory s) @ map uint rom
                        @ drop (0x200 + length rom) (memory s)\<rparr>)"
  by (simp add: load_rom_def store_rom_from [where p = "0x200"])

lemma load_rom_overflow:
  "fs rom_path = Some rom \<Longrightarrow> 0x200 \<le> length (memory s) \<Longrightarrow>
   length (memory s) < 0x200 + length rom \<Longrightarrow>
   load_rom fs s rom_path =
     Inl (IndexError,
          s\<lparr>memory := take 0x200 (memory s) @ map uint (take (length (memory s) - 0x200) rom)\<rparr>)"
  by (simp add: load_rom_def store_rom_overflow_from [where p = "0x200"])

lemma boot_fits:
  "length rom \<le> 3584 \<Longrightarrow>
   boot rom = chip8_init\<lparr>memory := take 0x200 (memory chip8_init) @ map uint rom
                                      @ drop (0x200 + length rom) (memory chip8_init)\<rparr>"
  by (simp add: boot_def load_rom_fits length_memory_init)

lemma length_memory_boot: "length rom \<le> 3584 \<Longrightarrow> length (memory (boot rom)) = 4096"
  by (simp add: boot_fits length_memory_init)

lemma memory_boot_nth:
  "length rom \<le> 3584 \<Longrightarrow> 0x200 \<le> j \<Longrightarrow> j < 4096 \<Longrightarrow>
   memory (boot rom) ! j = (if j - 0x200 < length rom then uint (rom ! (j - 0x200)) else 0)"
  by (auto simp add: boot_fits length_memory_init nth_append memory_init_nth)

lemma boot_fields:
  "length rom \<le> 3584 \<Longrightarrow>
   pc (boot rom) = 0x200 \<and> sp (boot rom) = 0 \<and> delay_timer (boot rom) = 0
   \<and> sound_timer (boot rom) = 0 \<and> stack (boot rom) = replicate 16 0
   \<and> v (boot rom) = replicate 16 0 \<and> keys (boot rom) = replicate 16 0"
  by (simp add: boot_fits chip8_init_def)

subsection \<open>Timers\<close>

lemma emulate_cycle_timers:
  assumes "emulate_cycle s = Inr (out, s')"
  shows "delay_timer s' = (if 0 < delay_timer s then delay_timer s - 1 else delay_timer s)"
    and "sound_timer s' = (if 0 < sound_timer s then sound_timer s - 1 else sound_timer s)"
  using assms
  by (auto simp add: emulate_cycle_def Let_def update_timers_eq split: sum.splits if_splits)

lemma steps_timers:
  "steps kss s = Inr (outs, s') \<Longrightarrow>
     (0 \<le> delay_timer s \<longrightarrow> delay_timer s' = max 0 (delay_timer s - int (length kss)))
   \<and> (0 \<le> sound_timer s \<longrightarrow> sound_timer s' = max 0 (sound_timer s - int (length kss)))"
proof (induction kss arbitrary: s outs s')
  case Nil
  then show ?case by simp
next
  case (Cons ks kss)
  from Cons.prems obtain out1 s1 out2
    where one: "emulate_cycle (set_keys s ks) = Inr (out1, s1)"
      and rest: "steps kss s1 = Inr (out2, s')"
    by (auto split: sum.splits prod.splits)
  from emulate_cycle_timers [OF one]
  have d: "delay_timer s1 = (if 0 < delay_timer s then delay_timer s - 1 else delay_timer s)"
    and t: "sound_timer s1 = (if 0 < sound_timer s then sound_timer s - 1 else sound_timer s)"
    by (simp_all add: set_keys_def)
  from Cons.IH [OF rest] d t show ?case by auto
qed

text \<open>
  \<^bold>\<open>C7\<close>. A call that returns has reached the timer update: each timer is one less than
  before if it was positive and unchanged otherwise, so a timer that is not negative stays
  so. Over consecutive returning calls a timer that starts at \<open>d \<ge> 0\<close> holds
  \<open>max 0 (d - n)\<close> after \<open>n\<close> calls: from 5 it is 0 after five calls and on every later one.
\<close>

theorem timers_count_down_to_zero:
  "(emulate_cycle s = Inr (out, s') \<longrightarrow>
       delay_timer s' = (if 0 < delay_timer s then delay_timer s - 1 else delay_timer s)
     \<and> sound_timer s' = (if 0 < sound_timer s then sound_timer s - 1 else sound_timer s)
     \<and> (0 \<le> delay_timer s \<longrightarrow> 0 \<le> delay_timer s')
     \<and> (0 \<le> sound_timer s \<longrightarrow> 0 \<le> sound_timer s'))
   \<and> (steps kss s = Inr (outs, s'') \<longrightarrow>
        (0 \<le> delay_timer s \<longrightarrow> delay_timer s'' = max 0 (delay_timer s - int (length kss)))
      \<and> (0 \<le> sound_timer s \<longrightarrow> sound_timer s'' = max 0 (sound_timer s - int (length kss))))"
proof (intro conjI impI)
  assume one: "emulate_cycle s = Inr (out, s')"
  from emulate_cycle_timers [OF one]
  show d: "delay_timer s' = (if 0 < delay_timer s then delay_timer s - 1 else delay_timer s)"
    and t: "sound_timer s' = (if 0 < sound_timer s then sound_timer s - 1 else sound_timer s)"
    by simp_all
  show "0 \<le> delay_timer s'" if "0 \<le> delay_timer s" using that d by simp
  show "0 \<le> sound_timer s'" if "0 \<le> sound_timer s" using that t by simp
next
  assume run: "steps kss s = Inr (outs, s'')"
  show "delay_timer s'' = max 0 (delay_timer s - int (length kss))" if "0 \<le> delay_timer s"
    using steps_timers [OF run] that by simp
  show "sound_timer s'' = max 0 (sound_timer s - int (length kss))" if "0 \<le> sound_timer s"
    using steps_timers [OF run] that by simp
qed

lemma timer_machine_step:
  "emulate_cycle timer_machine =
     Inr ([''Unknown opcode: 0'', ''BEEP!''], timer_machine\<lparr>pc := 0x202, delay_timer := 4, sound_timer := 0\<rparr>)"
  by (simp add: timer_machine_def emulate_cycle_def fetch_in_range update_timers_eq
      length_memory_boot memory_boot_nth boot_fields format_X_def hex_nat.simps hex_digit_def)

lemma timer_machine_run5:
  "steps [no_keys, no_keys, no_keys, no_keys, no_keys] timer_machine =
     Inr ([''Unknown opcode: 0'', ''BEEP!'', ''Unknown opcode: 0'', ''Unknown opcode: 0'',
           ''Unknown opcode: 0'', ''Unknown opcode: 0''],
          timer_machine\<lparr>pc := 0x20A, delay_timer := 0, sound_timer := 0, keys := no_keys\<rparr>)"
  by (simp add: timer_machine_def emulate_cycle_def fetch_in_range update_timers_eq set_keys_def
      length_memory_boot memory_boot_nth boot_fields format_X_def hex_nat.simps hex_digit_def)

text \<open>
  The theorem on the machine with the delay timer at 5 and the sound timer at 1: one call,
  then five calls.
\<close>

theorem timers_count_down_to_zero_witness:
  "emulate_cycle timer_machine =
     Inr ([''Unknown opcode: 0'', ''BEEP!''],
          timer_machine\<lparr>pc := 0x202, delay_timer := 4, sound_timer := 0\<rparr>)
   \<and> steps [no_keys, no_keys, no_keys, no_keys, no_keys] timer_machine =
     Inr ([''Unknown opcode: 0'', ''BEEP!'', ''Unknown opcode: 0'', ''Unknown opcode: 0'',
           ''Unknown opcode: 0'', ''Unknown opcode: 0''],
          timer_machine\<lparr>pc := 0x20A, delay_timer := 0, sound_timer := 0, keys := no_keys\<rparr>)
   \<and> delay_timer timer_machine = 5 \<and> sound_timer timer_machine = 1
   \<and> delay_timer (timer_machine\<lparr>pc := 0x202, delay_timer := 4, sound_timer := 0\<rparr>) = 5 - 1
   \<and> delay_timer (timer_machine\<lparr>pc := 0x20A, delay_timer := 0, sound_timer := 0, keys := no_keys\<rparr>)
       = max 0 (5 - 5)"
  using timer_machine_step timer_machine_run5
    timers_count_down_to_zero [of timer_machine "[''Unknown opcode: 0'', ''BEEP!'']"
      "timer_machine\<lparr>pc := 0x202, delay_timer := 4, sound_timer := 0\<rparr>"
      "[no_keys, no_keys, no_keys, no_keys, no_keys]"
      "[''Unknown opcode: 0'', ''BEEP!'', ''Unknown opcode: 0'', ''Unknown opcode: 0'',
        ''Unknown opcode: 0'', ''Unknown opcode: 0'']"
      "timer_machine\<lparr>pc := 0x20A, delay_timer := 0, sound_timer := 0, keys := no_keys\<rparr>"]
  by (simp add: timer_machine_def)

subsection \<open>The dispatch\<close>

lemma emulate_cycle_unknown_explicit:
  "fetch s = Inr opcode \<Longrightarrow> opcode \<noteq> 0x00E0 \<Longrightarrow> opcode \<noteq> 0x00EE \<Longrightarrow>
   emulate_cycle s =
     Inr ((''Unknown opcode: '' @ format_X opcode) # (if sound_timer s = 1 then [''BEEP!''] else []),
          s\<lparr>pc := pc s + 2,
            delay_timer := (if 0 < delay_timer s then delay_timer s - 1 else delay_timer s),
            sound_timer := (if 0 < sound_timer s then sound_timer s - 1 else sound_timer s)\<rparr>)"
  by (simp add: emulate_cycle_unknown update_timers_eq)

lemma fetch_set_keys: "fetch (set_keys s ks) = fetch s"
  by (simp add: fetch_def set_keys_def split: sum.splits)

lemma emulate_cycle_cases [case_names fetch_raises CLS RET_raises RET unknown]:
  obtains e where "fetch s = Inl e" and "emulate_cycle s = Inl (e, s)"
  | "fetch s = Inr 0x00E0"
    and "emulate_cycle s =
           Inr (update_timers []
                  (s\<lparr>pc := pc s + 2, gfx := replicate (CHIP8_WIDTH * CHIP8_HEIGHT) 0,
                     draw_flag := True\<rparr>))"
  | e where "fetch s = Inr 0x00EE" and "getitem (stack s) (sp s - 1) = Inl e"
    and "emulate_cycle s = Inl (e, s\<lparr>pc := pc s + 2, sp := sp s - 1\<rparr>)"
  | a where "fetch s = Inr 0x00EE" and "getitem (stack s) (sp s - 1) = Inr a"
    and "emulate_cycle s = Inr (update_timers [] (s\<lparr>sp := sp s - 1, pc := a\<rparr>))"
  | opcode where "fetch s = Inr opcode" and "opcode \<noteq> 0x00E0" and "opcode \<noteq> 0x00EE"
    and "emulate_cycle s =
           Inr (update_timers [''Unknown opcode: '' @ format_X opcode] (s\<lparr>pc := pc s + 2\<rparr>))"
proof (cases "fetch s")
  case (Inl e)
  then show ?thesis using that(1) emulate_cycle_fetch_raises by blast
next
  case (Inr opcode)
  show ?thesis
  proof (cases "opcode = 0x00E0")
    case True
    with Inr show ?thesis using that(2) emulate_cycle_CLS by blast
  next
    case not_CLS: False
    show ?thesis
    proof (cases "opcode = 0x00EE")
      case False
      with Inr not_CLS show ?thesis using that(5) emulate_cycle_unknown by blast
    next
      case True
      with Inr have f: "fetch s = Inr 0x00EE" by simp
      show ?thesis
      proof (cases "getitem (stack s) (sp s - 1)")
        case (Inl e)
        with f show ?thesis using that(3) by (simp add: emulate_cycle_RET)
      next
        case (Inr a)
        with f show ?thesis using that(4) by (simp add: emulate_cycle_RET)
      qed
    qed
  qed
qed

lemma emulate_cycle_set_keys:
  "emulate_cycle (set_keys s ks) =
     (case emulate_cycle s of
        Inl (e, s') \<Rightarrow> Inl (e, set_keys s' ks)
      | Inr (out, s') \<Rightarrow> Inr (out, set_keys s' ks))"
proof (cases s rule: emulate_cycle_cases)
  case (fetch_raises e)
  then show ?thesis by (simp add: emulate_cycle_fetch_raises fetch_set_keys)
next
  case CLS
  then show ?thesis
    by (simp add: emulate_cycle_CLS fetch_set_keys update_timers_eq) (simp add: set_keys_def)
next
  case (RET_raises e)
  moreover have "getitem (stack (set_keys s ks)) (sp (set_keys s ks) - 1) = Inl e"
    using RET_raises by (simp add: set_keys_def)
  ultimately show ?thesis
    by (simp add: emulate_cycle_RET fetch_set_keys) (simp add: set_keys_def)
next
  case (RET a)
  moreover have "getitem (stack (set_keys s ks)) (sp (set_keys s ks) - 1) = Inr a"
    using RET by (simp add: set_keys_def)
  ultimately show ?thesis
    by (simp add: emulate_cycle_RET fetch_set_keys update_timers_eq) (simp add: set_keys_def)
next
  case (unknown opcode)
  then show ?thesis
    by (simp add: emulate_cycle_unknown [where opcode = opcode] fetch_set_keys update_timers_eq)
       (simp add: set_keys_def)
qed

lemma emulate_cycle_frame:
  assumes "emulate_cycle s = Inr (out, s') \<or> emulate_cycle s = Inl (e, s')"
  shows "memory s' = memory s" and "v s' = v s" and "i s' = i s" and "keys s' = keys s"
    and "stack s' = stack s"
  using assms
  by (cases s rule: emulate_cycle_cases; auto simp add: update_timers_eq)+

lemma fetch_boot2:
  "length rom \<le> 3584 \<Longrightarrow> 2 \<le> length rom \<Longrightarrow>
   fetch (boot rom) = Inr (push_bit 8 (uint (rom ! 0)) OR uint (rom ! 1))"
  by (auto simp add: fetch_in_range length_memory_boot boot_fields memory_boot_nth)

lemma fetch_cong: "memory s = memory t \<Longrightarrow> pc s = pc t \<Longrightarrow> fetch s = fetch t"
  by (simp add: fetch_def split: sum.splits)

lemma fetch_lit_machine: "fetch lit_machine = Inr 0x00E0"
proof -
  have "fetch lit_machine = fetch (boot [0x00, 0xE0])"
    by (rule fetch_cong) (simp_all add: lit_machine_def)
  then show ?thesis by (simp add: fetch_boot2)
qed

text \<open>
  \<^bold>\<open>C1\<close> (amended). Of the opcode patterns that the specification lists, \<^verbatim>\<open>emulate_cycle\<close>
  implements two. On \<^verbatim>\<open>00E0\<close> it clears the framebuffer and sets the draw flag; on
  \<^verbatim>\<open>00EE\<close> it decrements the stack pointer and reads the program counter from the stack
  through Python's index rules. Every other listed opcode runs the final \<^verbatim>\<open>else\<close> branch:
  the call prints \<^verbatim>\<open>Unknown opcode: \<close> and the opcode in hexadecimal, and changes only the
  program counter (by 2) and the timers.
\<close>

theorem dispatch_implements_two_opcodes:
  assumes "fetch s = Inr opcode" and "spec_listed_opcode opcode"
  shows "(opcode = 0x00E0 \<longrightarrow>
            emulate_cycle s =
              Inr (update_timers []
                     (s\<lparr>pc := pc s + 2, gfx := replicate (CHIP8_WIDTH * CHIP8_HEIGHT) 0,
                        draw_flag := True\<rparr>)))
       \<and> (opcode = 0x00EE \<longrightarrow>
            emulate_cycle s =
              (case getitem (stack s) (sp s - 1) of
                 Inl e \<Rightarrow> Inl (e, s\<lparr>pc := pc s + 2, sp := sp s - 1\<rparr>)
               | Inr a \<Rightarrow> Inr (update_timers [] (s\<lparr>sp := sp s - 1, pc := a\<rparr>))))
       \<and> (opcode \<noteq> 0x00E0 \<and> opcode \<noteq> 0x00EE \<longrightarrow>
            emulate_cycle s =
              Inr (update_timers [''Unknown opcode: '' @ format_X opcode] (s\<lparr>pc := pc s + 2\<rparr>)))"
  using assms(1) emulate_cycle_CLS [of s] emulate_cycle_RET [of s] emulate_cycle_unknown [of s opcode]
  by auto

text \<open>
  The theorem at \<^verbatim>\<open>1234\<close>, which runs the last branch, and at \<^verbatim>\<open>00E0\<close>.
\<close>

theorem dispatch_implements_two_opcodes_witness:
  "fetch (boot [0x12, 0x34]) = Inr 0x1234 \<and> spec_listed_opcode 0x1234
   \<and> emulate_cycle (boot [0x12, 0x34]) =
       Inr (update_timers [''Unknown opcode: '' @ format_X 0x1234]
              ((boot [0x12, 0x34])\<lparr>pc := pc (boot [0x12, 0x34]) + 2\<rparr>))
   \<and> fetch lit_machine = Inr 0x00E0 \<and> spec_listed_opcode 0x00E0
   \<and> emulate_cycle lit_machine =
       Inr (update_timers []
              (lit_machine\<lparr>pc := pc lit_machine + 2,
                 gfx := replicate (CHIP8_WIDTH * CHIP8_HEIGHT) 0, draw_flag := True\<rparr>))"
proof -
  have jp: "fetch (boot [0x12, 0x34]) = Inr 0x1234" by (simp add: fetch_boot2)
  have jp_listed: "spec_listed_opcode 0x1234" by (simp add: spec_listed_opcode_def)
  have cls_listed: "spec_listed_opcode 0x00E0" by (simp add: spec_listed_opcode_def)
  from dispatch_implements_two_opcodes [OF jp jp_listed]
    dispatch_implements_two_opcodes [OF fetch_lit_machine cls_listed]
  show ?thesis using jp jp_listed cls_listed fetch_lit_machine by simp
qed

text \<open>
  The stated form of C1 fails at \<^verbatim>\<open>1234\<close> (\<^verbatim>\<open>JP 0x234\<close>), a listed opcode: from the machine
  booted with the program \<^verbatim>\<open>12 34\<close> the call prints \<^verbatim>\<open>Unknown opcode: 1234\<close> and leaves
  the program counter at \<^verbatim>\<open>0x202\<close>, not at \<^verbatim>\<open>0x234\<close>.
\<close>

theorem jp_runs_unknown_branch:
  "spec_listed_opcode 0x1234
   \<and> fetch (boot [0x12, 0x34]) = Inr 0x1234
   \<and> emulate_cycle (boot [0x12, 0x34]) =
       Inr ([''Unknown opcode: 1234''], (boot [0x12, 0x34])\<lparr>pc := 0x202\<rparr>)
   \<and> pc (boot [0x12, 0x34]) = 0x200"
  by (simp add: spec_listed_opcode_def emulate_cycle_unknown_explicit [where opcode = "0x1234"]
      fetch_boot2 boot_fields format_X_def hex_nat.simps hex_digit_def)

subsection \<open>\<^verbatim>\<open>00E0\<close>\<close>

text \<open>
  \<^bold>\<open>C8\<close>. When the fetched opcode is \<^verbatim>\<open>00E0\<close> the call returns, the framebuffer is the
  list of \<open>64 * 32\<close> zeros, so every pixel \<open>(x, y)\<close>, stored at \<open>x + y * 64\<close>, is zero, and
  the draw flag is set.
\<close>

theorem cls_clears_framebuffer:
  assumes "fetch s = Inr 0x00E0"
  shows "\<exists>out s'. emulate_cycle s = Inr (out, s')
           \<and> gfx s' = replicate (CHIP8_WIDTH * CHIP8_HEIGHT) 0
           \<and> (\<forall>x<CHIP8_WIDTH. \<forall>y<CHIP8_HEIGHT. gfx s' ! (x + y * CHIP8_WIDTH) = 0)
           \<and> draw_flag s'"
proof -
  let ?s' = "snd (update_timers []
                (s\<lparr>pc := pc s + 2, gfx := replicate (CHIP8_WIDTH * CHIP8_HEIGHT) 0,
                   draw_flag := True\<rparr>))"
  have g: "gfx ?s' = replicate (CHIP8_WIDTH * CHIP8_HEIGHT) 0" and d: "draw_flag ?s'"
    by (simp_all add: update_timers_eq)
  have "gfx ?s' ! (x + y * CHIP8_WIDTH) = 0" if "x < CHIP8_WIDTH" and "y < CHIP8_HEIGHT" for x y
  proof -
    from that have "x + y * CHIP8_WIDTH < CHIP8_WIDTH * CHIP8_HEIGHT" by simp
    then show ?thesis unfolding g by (rule nth_replicate)
  qed
  moreover have "emulate_cycle s = Inr (fst (update_timers []
                (s\<lparr>pc := pc s + 2, gfx := replicate (CHIP8_WIDTH * CHIP8_HEIGHT) 0,
                   draw_flag := True\<rparr>)), ?s')"
    using assms by (simp add: emulate_cycle_CLS)
  ultimately show ?thesis using g d by blast
qed

text \<open>
  The theorem on a machine with a lit pixel and the draw flag down.
\<close>

theorem cls_clears_framebuffer_witness:
  "fetch lit_machine = Inr 0x00E0 \<and> gfx lit_machine ! 0 = 1 \<and> \<not> draw_flag lit_machine
   \<and> (\<exists>out s'. emulate_cycle lit_machine = Inr (out, s')
          \<and> gfx s' = replicate (CHIP8_WIDTH * CHIP8_HEIGHT) 0 \<and> gfx s' ! 0 = 0 \<and> draw_flag s')"
proof -
  from cls_clears_framebuffer [OF fetch_lit_machine]
  obtain out s' where "emulate_cycle lit_machine = Inr (out, s')"
    and "gfx s' = replicate (CHIP8_WIDTH * CHIP8_HEIGHT) 0" and "draw_flag s'"
    by blast
  moreover from this have "gfx s' ! 0 = 0" by simp
  moreover have "gfx lit_machine ! 0 = 1" and "\<not> draw_flag lit_machine"
    by (simp_all add: lit_machine_def boot_fits chip8_init_def)
  ultimately show ?thesis using fetch_lit_machine by blast
qed

subsection \<open>Determinism\<close>

lemma update_timers_in_eq:
  "update_timers_in p s =
     (p\<lparr>stdout := stdout p @ (if sound_timer s = 1 then [''BEEP!''] else [])\<rparr>,
      snd (update_timers [] s))"
  by (simp add: update_timers_in_def update_timers_eq print_line_def Let_def)

text \<open>
  The call inside a process is the call of the earlier sections: the same exception or
  state, its printed lines appended to standard output, the rest of the process untouched.
\<close>

lemma emulate_cycle_in_agrees:
  "emulate_cycle_in p s =
     (case emulate_cycle s of
        Inl r \<Rightarrow> (p, Inl r)
      | Inr (out, s') \<Rightarrow> (p\<lparr>stdout := stdout p @ out\<rparr>, Inr s'))"
proof (cases s rule: emulate_cycle_cases)
  case (fetch_raises e)
  then show ?thesis by (simp add: emulate_cycle_in_def)
next
  case CLS
  then show ?thesis
    by (simp add: emulate_cycle_in_def update_timers_in_eq update_timers_eq)
next
  case (RET_raises e)
  then show ?thesis by (simp add: emulate_cycle_in_def)
next
  case (RET a)
  then show ?thesis
    by (simp add: emulate_cycle_in_def update_timers_in_eq update_timers_eq)
next
  case (unknown opcode)
  then show ?thesis
    by (simp add: emulate_cycle_in_def update_timers_in_eq update_timers_eq print_line_def)
qed

text \<open>
  \<^bold>\<open>C10\<close>. Two machines that agree on every attribute, called inside any two processes
  (whatever their generator states, clocks and earlier output), end in the same way: the
  same exception or return with the same resulting state, and the same lines printed.
  Neither call reads or advances the generator or the clock, so no randomness and no input
  outside the eleven attributes influences a step.
\<close>

theorem emulate_cycle_no_hidden_input:
  fixes s t :: chip8 and p q :: process
  assumes "memory s = memory t" and "v s = v t" and "i s = i t" and "pc s = pc t"
    and "stack s = stack t" and "sp s = sp t"
    and "delay_timer s = delay_timer t" and "sound_timer s = sound_timer t"
    and "gfx s = gfx t" and "keys s = keys t" and "draw_flag s = draw_flag t"
  shows "snd (emulate_cycle_in p s) = snd (emulate_cycle_in q t)
       \<and> (\<exists>out. stdout (fst (emulate_cycle_in p s)) = stdout p @ out
                \<and> stdout (fst (emulate_cycle_in q t)) = stdout q @ out)
       \<and> random_state (fst (emulate_cycle_in p s)) = random_state p
       \<and> clock (fst (emulate_cycle_in p s)) = clock p
       \<and> random_state (fst (emulate_cycle_in q t)) = random_state q
       \<and> clock (fst (emulate_cycle_in q t)) = clock q"
proof -
  from assms have st: "s = t" by (intro chip8.equality) simp_all
  show ?thesis
  proof (cases "emulate_cycle t")
    case (Inl r)
    then show ?thesis unfolding st emulate_cycle_in_agrees by simp
  next
    case (Inr r)
    then show ?thesis unfolding st emulate_cycle_in_agrees by (cases r) simp
  qed
qed

text \<open>
  The theorem on the machine with both timers running, called in two processes that share
  nothing: both calls return the same state and print the same two lines.
\<close>

theorem emulate_cycle_no_hidden_input_witness:
  "snd (emulate_cycle_in quiet_process timer_machine)
     = snd (emulate_cycle_in busy_process timer_machine)
   \<and> snd (emulate_cycle_in quiet_process timer_machine)
     = Inr (timer_machine\<lparr>pc := 0x202, delay_timer := 4, sound_timer := 0\<rparr>)
   \<and> stdout (fst (emulate_cycle_in quiet_process timer_machine))
     = [''Unknown opcode: 0'', ''BEEP!'']
   \<and> stdout (fst (emulate_cycle_in busy_process timer_machine))
     = [''Chip-8 Emulator'', ''Unknown opcode: 0'', ''BEEP!'']
   \<and> random_state (fst (emulate_cycle_in quiet_process timer_machine)) = 1
   \<and> clock (fst (emulate_cycle_in quiet_process timer_machine)) = 0
   \<and> random_state (fst (emulate_cycle_in busy_process timer_machine)) = 42
   \<and> clock (fst (emulate_cycle_in busy_process timer_machine)) = 1000"
proof -
  have "emulate_cycle_in p timer_machine =
          (p\<lparr>stdout := stdout p @ [''Unknown opcode: 0'', ''BEEP!'']\<rparr>,
           Inr (timer_machine\<lparr>pc := 0x202, delay_timer := 4, sound_timer := 0\<rparr>))" for p
    by (simp add: emulate_cycle_in_agrees timer_machine_step)
  with emulate_cycle_no_hidden_input [of timer_machine timer_machine quiet_process busy_process]
  show ?thesis by (simp add: quiet_process_def busy_process_def)
qed

subsection \<open>A program that fits\<close>

text \<open>
  \<^bold>\<open>C6\<close>. A program \<open>P\<close> of at most \<^verbatim>\<open>4096 - 0x200\<close> bytes, loaded into a machine whose
  memory has its 4096 cells, is read back unchanged from \<^verbatim>\<open>memory[0x200 : 0x200 + len(P)]\<close>
  (as the integers of its bytes), and the load changes no attribute other than the memory.
\<close>

theorem load_rom_roundtrip:
  assumes "fs rom_path = Some P"
    and "length (memory s) = CHIP8_MEMORY_SIZE"
    and "length P \<le> CHIP8_MEMORY_SIZE - 0x200"
  shows "\<exists>s'. load_rom fs s rom_path = Inr s'
           \<and> take (length P) (drop 0x200 (memory s')) = map uint P
           \<and> length (memory s') = CHIP8_MEMORY_SIZE
           \<and> v s' = v s \<and> i s' = i s \<and> pc s' = pc s \<and> stack s' = stack s \<and> sp s' = sp s
           \<and> delay_timer s' = delay_timer s \<and> sound_timer s' = sound_timer s
           \<and> gfx s' = gfx s \<and> keys s' = keys s \<and> draw_flag s' = draw_flag s"
proof -
  let ?s' = "s\<lparr>memory := take 0x200 (memory s) @ map uint P
                        @ drop (0x200 + length P) (memory s)\<rparr>"
  from assms have "load_rom fs s rom_path = Inr ?s'"
    by (simp add: load_rom_fits)
  moreover from assms have "take (length P) (drop 0x200 (memory ?s')) = map uint P"
    by simp
  moreover from assms have "length (memory ?s') = CHIP8_MEMORY_SIZE"
    by simp
  ultimately show ?thesis by simp
qed

text \<open>
  The theorem on the two-byte program \<^verbatim>\<open>00 E0\<close> and the machine \<^verbatim>\<open>Chip8()\<close> builds.
\<close>

theorem load_rom_roundtrip_witness:
  "[''temp_rom.ch8'' \<mapsto> [0x00, 0xE0 :: byte]] ''temp_rom.ch8'' = Some [0x00, 0xE0]
   \<and> length (memory chip8_init) = CHIP8_MEMORY_SIZE
   \<and> length [0x00, 0xE0 :: byte] \<le> CHIP8_MEMORY_SIZE - 0x200
   \<and> (\<exists>s'. load_rom [''temp_rom.ch8'' \<mapsto> [0x00, 0xE0]] chip8_init ''temp_rom.ch8'' = Inr s'
          \<and> take (length [0x00, 0xE0 :: byte]) (drop 0x200 (memory s')) = [0x00, 0xE0]
          \<and> pc s' = pc chip8_init)"
proof -
  have opened: "[''temp_rom.ch8'' \<mapsto> [0x00, 0xE0 :: byte]] ''temp_rom.ch8'' = Some [0x00, 0xE0]"
    and fits: "length [0x00, 0xE0 :: byte] \<le> CHIP8_MEMORY_SIZE - 0x200"
    by simp_all
  from load_rom_roundtrip [of "[''temp_rom.ch8'' \<mapsto> [0x00, 0xE0]]" "''temp_rom.ch8''"
      "[0x00, 0xE0]" chip8_init, OF opened length_memory_init fits]
  obtain s' where "load_rom [''temp_rom.ch8'' \<mapsto> [0x00, 0xE0]] chip8_init ''temp_rom.ch8'' = Inr s'"
    and "take (length [0x00, 0xE0 :: byte]) (drop 0x200 (memory s')) = map uint [0x00, 0xE0 :: byte]"
    and "pc s' = pc chip8_init"
    by blast
  moreover have "map uint [0x00, 0xE0 :: byte] = [0x00, 0xE0]" by simp
  ultimately show ?thesis using opened fits length_memory_init by auto
qed

subsection \<open>Unknown opcodes\<close>

lemma implemented_opcodes_listed: "spec_listed_opcode 0x00E0" "spec_listed_opcode 0x00EE"
  by (simp_all add: spec_listed_opcode_def)

text \<open>
  \<^bold>\<open>C2\<close> (amended). For an opcode outside the specification's table, and for every opcode
  other than \<^verbatim>\<open>00E0\<close> and \<^verbatim>\<open>00EE\<close>, the call returns: it raises nothing and hands no
  error to its caller. It prints the line \<^verbatim>\<open>Unknown opcode: \<close> with the opcode in upper-case
  hexadecimal, then \<^verbatim>\<open>BEEP!\<close> if the sound timer was 1. The state changes in the program
  counter, which is 2 further, and in the two timers, each one less if it was positive.
\<close>

theorem unknown_opcode_prints_and_continues:
  assumes "fetch s = Inr opcode"
    and "\<not> spec_listed_opcode opcode \<or> (opcode \<noteq> 0x00E0 \<and> opcode \<noteq> 0x00EE)"
  shows "emulate_cycle s =
           Inr ((''Unknown opcode: '' @ format_X opcode)
                  # (if sound_timer s = 1 then [''BEEP!''] else []),
                s\<lparr>pc := pc s + 2,
                  delay_timer := (if 0 < delay_timer s then delay_timer s - 1 else delay_timer s),
                  sound_timer := (if 0 < sound_timer s then sound_timer s - 1 else sound_timer s)\<rparr>)"
proof -
  from assms(2) implemented_opcodes_listed have "opcode \<noteq> 0x00E0" and "opcode \<noteq> 0x00EE"
    by auto
  with assms(1) show ?thesis by (rule emulate_cycle_unknown_explicit)
qed

lemma fetch_unknown_machine: "fetch unknown_machine = Inr 0x5FFF"
proof -
  have "fetch unknown_machine = fetch (boot [0x5F, 0xFF])"
    by (rule fetch_cong) (simp_all add: unknown_machine_def)
  then show ?thesis by (simp add: fetch_boot2)
qed

lemma unknown_machine_step:
  "emulate_cycle unknown_machine =
     Inr ([''Unknown opcode: 5FFF''], unknown_machine\<lparr>pc := 0x202, delay_timer := 2\<rparr>)"
  by (simp add: emulate_cycle_unknown_explicit [OF fetch_unknown_machine])
     (simp add: unknown_machine_def boot_fields format_X_def hex_nat.simps hex_digit_def)

text \<open>
  The theorem at \<^verbatim>\<open>5FFF\<close>, an opcode outside the table.
\<close>

theorem unknown_opcode_prints_and_continues_witness:
  "fetch unknown_machine = Inr 0x5FFF \<and> \<not> spec_listed_opcode 0x5FFF
   \<and> emulate_cycle unknown_machine =
       Inr ((''Unknown opcode: '' @ format_X 0x5FFF)
              # (if sound_timer unknown_machine = 1 then [''BEEP!''] else []),
            unknown_machine\<lparr>pc := pc unknown_machine + 2,
              delay_timer := (if 0 < delay_timer unknown_machine
                              then delay_timer unknown_machine - 1
                              else delay_timer unknown_machine),
              sound_timer := (if 0 < sound_timer unknown_machine
                              then sound_timer unknown_machine - 1
                              else sound_timer unknown_machine)\<rparr>)"
proof -
  have outside: "\<not> spec_listed_opcode 0x5FFF" by (simp add: spec_listed_opcode_def)
  then have "\<not> spec_listed_opcode 0x5FFF \<or> ((0x5FFF :: int) \<noteq> 0x00E0 \<and> (0x5FFF :: int) \<noteq> 0x00EE)"
    by simp
  from unknown_opcode_prints_and_continues [OF fetch_unknown_machine this]
  show ?thesis using fetch_unknown_machine outside by simp
qed

text \<open>
  The stated form of C2 fails at \<^verbatim>\<open>5FFF\<close> with the delay timer at 3: the call returns,
  having printed a line, and the delay timer is 2 afterwards.
\<close>

theorem unknown_opcode_returns_and_counts_timers:
  "\<not> spec_listed_opcode 0x5FFF \<and> fetch unknown_machine = Inr 0x5FFF
   \<and> delay_timer unknown_machine = 3
   \<and> emulate_cycle unknown_machine =
       Inr ([''Unknown opcode: 5FFF''], unknown_machine\<lparr>pc := 0x202, delay_timer := 2\<rparr>)"
  using fetch_unknown_machine unknown_machine_step
  by (simp add: spec_listed_opcode_def unknown_machine_def)

subsection \<open>\<^verbatim>\<open>00EE\<close>\<close>

lemma getitem_stack:
  assumes "length xs = 16"
  shows "1 \<le> k \<Longrightarrow> k \<le> 16 \<Longrightarrow> getitem xs (k - 1) = Inr (xs ! nat (k - 1))"
    and "- 15 \<le> k \<Longrightarrow> k \<le> 0 \<Longrightarrow> getitem xs (k - 1) = Inr (xs ! nat (16 + (k - 1)))"
    and "k < - 15 \<or> 16 < k \<Longrightarrow> getitem xs (k - 1) = Inl IndexError"
  using assms by (auto simp add: getitem_def py_index_def)

text \<open>
  \<^bold>\<open>C3\<close> (amended). When the fetched opcode is \<^verbatim>\<open>00EE\<close> and the stack has its 16 cells,
  the stack pointer is decremented. For \<open>1 \<le> SP \<le> 16\<close> the program counter becomes
  \<^verbatim>\<open>stack[SP - 1]\<close>, the popped return address. For \<open>- 15 \<le> SP \<le> 0\<close> the call returns too:
  the index \<open>SP - 1\<close> is negative and Python reads \<^verbatim>\<open>stack[16 + SP - 1]\<close>, so with
  \<open>SP = 0\<close> the program counter becomes \<^verbatim>\<open>stack[15]\<close>. Outside these ranges the stack read
  raises \<^verbatim>\<open>IndexError\<close>, with the stack pointer decremented and the program counter
  advanced by 2.
\<close>

theorem ret_pops_by_python_index:
  assumes "fetch s = Inr 0x00EE" and "length (stack s) = CHIP8_STACK_SIZE"
  shows "(1 \<le> sp s \<and> sp s \<le> 16 \<longrightarrow>
            (\<exists>out s'. emulate_cycle s = Inr (out, s')
               \<and> sp s' = sp s - 1 \<and> pc s' = stack s ! nat (sp s - 1)))
       \<and> (- 15 \<le> sp s \<and> sp s \<le> 0 \<longrightarrow>
            (\<exists>out s'. emulate_cycle s = Inr (out, s')
               \<and> sp s' = sp s - 1 \<and> pc s' = stack s ! nat (16 + (sp s - 1))))
       \<and> (sp s < - 15 \<or> 16 < sp s \<longrightarrow>
            emulate_cycle s = Inl (IndexError, s\<lparr>pc := pc s + 2, sp := sp s - 1\<rparr>))"
proof (intro conjI impI)
  assume "1 \<le> sp s \<and> sp s \<le> 16"
  with assms(2) have "getitem (stack s) (sp s - 1) = Inr (stack s ! nat (sp s - 1))"
    by (simp add: getitem_stack)
  with assms(1) show "\<exists>out s'. emulate_cycle s = Inr (out, s')
      \<and> sp s' = sp s - 1 \<and> pc s' = stack s ! nat (sp s - 1)"
    by (simp add: emulate_cycle_RET update_timers_eq)
next
  assume "- 15 \<le> sp s \<and> sp s \<le> 0"
  with assms(2) have "getitem (stack s) (sp s - 1) = Inr (stack s ! nat (16 + (sp s - 1)))"
    by (simp add: getitem_stack)
  with assms(1) show "\<exists>out s'. emulate_cycle s = Inr (out, s')
      \<and> sp s' = sp s - 1 \<and> pc s' = stack s ! nat (16 + (sp s - 1))"
    by (simp add: emulate_cycle_RET update_timers_eq)
next
  assume "sp s < - 15 \<or> 16 < sp s"
  with assms(2) have "getitem (stack s) (sp s - 1) = Inl IndexError"
    by (simp add: getitem_stack)
  with assms(1) show "emulate_cycle s = Inl (IndexError, s\<lparr>pc := pc s + 2, sp := sp s - 1\<rparr>)"
    by (simp add: emulate_cycle_RET)
qed

lemma fetch_ret_machine: "fetch (ret_machine k) = Inr 0x00EE"
proof -
  have "fetch (ret_machine k) = fetch (boot [0x00, 0xEE])"
    by (rule fetch_cong) (simp_all add: ret_machine_def)
  then show ?thesis by (simp add: fetch_boot2)
qed

text \<open>
  The theorem with the stack pointer at 1, at \<open>- 15\<close> and at 17.
\<close>

theorem ret_pops_by_python_index_witness:
  "fetch (ret_machine 1) = Inr 0x00EE \<and> length (stack (ret_machine 1)) = CHIP8_STACK_SIZE
   \<and> (\<exists>out s'. emulate_cycle (ret_machine 1) = Inr (out, s') \<and> sp s' = 0 \<and> pc s' = 0x300)
   \<and> fetch (ret_machine (- 15)) = Inr 0x00EE
   \<and> (\<exists>out s'. emulate_cycle (ret_machine (- 15)) = Inr (out, s') \<and> sp s' = - 16 \<and> pc s' = 0x300)
   \<and> fetch (ret_machine 17) = Inr 0x00EE
   \<and> emulate_cycle (ret_machine 17) = Inl (IndexError, (ret_machine 17)\<lparr>pc := 0x202, sp := 16\<rparr>)"
proof -
  have len: "length (stack (ret_machine k)) = CHIP8_STACK_SIZE" for k
    by (simp add: ret_machine_def)
  have sp: "sp (ret_machine k) = k" and st: "stack (ret_machine k) ! 0 = 0x300" for k
    by (simp_all add: ret_machine_def)
  have pc: "pc (ret_machine k) = 0x200" for k
    by (simp add: ret_machine_def boot_fields)
  from ret_pops_by_python_index [OF fetch_ret_machine len, of 1]
    ret_pops_by_python_index [OF fetch_ret_machine len, of "- 15"]
    ret_pops_by_python_index [OF fetch_ret_machine len, of 17]
  show ?thesis using fetch_ret_machine len by (simp add: sp st pc)
qed

text \<open>
  The stated form of C3 fails on the machine booted with the program \<^verbatim>\<open>00 EE\<close>, whose stack
  pointer is 0: the call returns with the stack pointer at \<open>- 1\<close> and the program counter
  at \<^verbatim>\<open>stack[15]\<close>, which is 0.
\<close>

theorem ret_on_empty_stack_returns:
  "sp (boot [0x00, 0xEE]) = 0 \<and> fetch (boot [0x00, 0xEE]) = Inr 0x00EE
   \<and> emulate_cycle (boot [0x00, 0xEE]) = Inr ([], (boot [0x00, 0xEE])\<lparr>sp := - 1, pc := 0\<rparr>)"
proof -
  have f: "fetch (boot [0x00, 0xEE]) = Inr 0x00EE" by (simp add: fetch_boot2)
  have "getitem (stack (boot [0x00, 0xEE])) (sp (boot [0x00, 0xEE]) - 1) = Inr 0"
    by (simp add: boot_fields getitem_def py_index_def)
  then have "emulate_cycle (boot [0x00, 0xEE])
             = Inr (update_timers [] ((boot [0x00, 0xEE])\<lparr>sp := sp (boot [0x00, 0xEE]) - 1, pc := 0\<rparr>))"
    by (simp add: emulate_cycle_RET [OF f])
  then show ?thesis using f by (simp add: update_timers_eq boot_fields)
qed

subsection \<open>Which calls raise\<close>

lemma emulate_cycle_raises_iff:
  "(\<exists>r. emulate_cycle s = Inl r) =
     ((\<exists>e. fetch s = Inl e)
      \<or> fetch s = Inr 0x00EE \<and> (\<exists>e. getitem (stack s) (sp s - 1) = Inl e))"
  by (cases s rule: emulate_cycle_cases) simp_all

text \<open>
  \<^bold>\<open>C4\<close> (amended). With a memory of 4096 cells the fetch raises \<^verbatim>\<open>IndexError\<close>, the only
  exception it can raise, exactly when \<open>PC + 1 \<ge> 4096\<close> or \<open>PC < - 4096\<close>, and the call then
  leaves the state as it was. For \<open>0 \<le> PC\<close> and \<open>PC + 1 < 4096\<close> the fetch returns
  \<^verbatim>\<open>memory[PC] << 8 | memory[PC + 1]\<close>. A call raises exactly when its fetch does or the
  opcode is \<^verbatim>\<open>00EE\<close> and \<open>SP - 1\<close> is no index of the 16-cell stack; both raise the same
  \<^verbatim>\<open>IndexError\<close>.
\<close>

theorem fetch_raises_iff_out_of_range:
  assumes "length (memory s) = CHIP8_MEMORY_SIZE"
  shows "(fetch s = Inl IndexError) = (4096 \<le> pc s + 1 \<or> pc s < - 4096)
       \<and> (fetch s = Inl e \<longrightarrow> e = IndexError \<and> emulate_cycle s = Inl (IndexError, s))
       \<and> (0 \<le> pc s \<and> pc s + 1 < 4096 \<longrightarrow>
            fetch s = Inr (push_bit 8 (memory s ! nat (pc s)) OR memory s ! nat (pc s + 1)))
       \<and> (length (stack s) = CHIP8_STACK_SIZE \<longrightarrow>
            (\<exists>r. emulate_cycle s = Inl r) =
              (4096 \<le> pc s + 1 \<or> pc s < - 4096
               \<or> fetch s = Inr 0x00EE \<and> (sp s < - 15 \<or> 16 < sp s)))"
proof (intro conjI impI)
  show iff: "(fetch s = Inl IndexError) = (4096 \<le> pc s + 1 \<or> pc s < - 4096)"
    using assms by (simp add: fetch_Inl_iff)
  show "e = IndexError" if "fetch s = Inl e"
    using that by (rule fetch_raises_only_IndexError)
  show "emulate_cycle s = Inl (IndexError, s)" if "fetch s = Inl e"
    using that fetch_raises_only_IndexError [OF that] by (simp add: emulate_cycle_fetch_raises)
  show "fetch s = Inr (push_bit 8 (memory s ! nat (pc s)) OR memory s ! nat (pc s + 1))"
    if "0 \<le> pc s \<and> pc s + 1 < 4096"
    using that assms by (simp add: fetch_in_range)
  show "(\<exists>r. emulate_cycle s = Inl r) =
          (4096 \<le> pc s + 1 \<or> pc s < - 4096
           \<or> fetch s = Inr 0x00EE \<and> (sp s < - 15 \<or> 16 < sp s))"
    if len: "length (stack s) = CHIP8_STACK_SIZE"
  proof -
    have f: "(\<exists>e. fetch s = Inl e) = (4096 \<le> pc s + 1 \<or> pc s < - 4096)"
      using assms by (auto simp add: fetch_Inl_iff)
    have g: "(\<exists>e. getitem (stack s) (sp s - 1) = Inl e) = (sp s < - 15 \<or> 16 < sp s)"
      using len by (auto simp add: getitem_Inl_iff)
    show ?thesis unfolding emulate_cycle_raises_iff f g by blast
  qed
qed

lemma fetch_past_the_end: "fetch ((boot [])\<lparr>pc := 4095\<rparr>) = Inl IndexError"
  by (simp add: fetch_Inl_iff length_memory_boot)

text \<open>
  The theorem with the program counter at 4095, and on a booted machine.
\<close>

theorem fetch_raises_iff_out_of_range_witness:
  "length (memory ((boot [])\<lparr>pc := 4095\<rparr>)) = CHIP8_MEMORY_SIZE
   \<and> fetch ((boot [])\<lparr>pc := 4095\<rparr>) = Inl IndexError
   \<and> emulate_cycle ((boot [])\<lparr>pc := 4095\<rparr>) = Inl (IndexError, (boot [])\<lparr>pc := 4095\<rparr>)
   \<and> length (memory (boot [0x12, 0x34])) = CHIP8_MEMORY_SIZE
   \<and> 0 \<le> pc (boot [0x12, 0x34]) \<and> pc (boot [0x12, 0x34]) + 1 < 4096
   \<and> fetch (boot [0x12, 0x34])
       = Inr (push_bit 8 (memory (boot [0x12, 0x34]) ! nat (pc (boot [0x12, 0x34])))
                OR memory (boot [0x12, 0x34]) ! nat (pc (boot [0x12, 0x34]) + 1))
   \<and> fetch (boot [0x12, 0x34]) = Inr 0x1234"
proof -
  have len1: "length (memory ((boot [])\<lparr>pc := 4095\<rparr>)) = CHIP8_MEMORY_SIZE"
    and len2: "length (memory (boot [0x12, 0x34])) = CHIP8_MEMORY_SIZE"
    by (simp_all add: length_memory_boot)
  have pc2: "0 \<le> pc (boot [0x12, 0x34]) \<and> pc (boot [0x12, 0x34]) + 1 < 4096"
    by (simp add: boot_fields)
  from fetch_raises_iff_out_of_range [OF len1, of IndexError]
    fetch_raises_iff_out_of_range [OF len2, of IndexError]
  show ?thesis using len1 len2 pc2 fetch_past_the_end by (simp add: fetch_boot2)
qed

text \<open>
  The stated form of C4 fails: the exception of a fetch past the end (program counter 4095)
  is the \<^verbatim>\<open>IndexError\<close> that the call also raises with the program counter at \<^verbatim>\<open>0x200\<close>,
  on \<^verbatim>\<open>00EE\<close> with the stack pointer at \<open>- 16\<close>; and the fetch itself raises it at
  \<open>PC = - 4097\<close>.
\<close>

theorem step_raises_IndexError_within_range:
  "4096 \<le> pc ((boot [])\<lparr>pc := 4095\<rparr>) + 1
   \<and> emulate_cycle ((boot [])\<lparr>pc := 4095\<rparr>) = Inl (IndexError, (boot [])\<lparr>pc := 4095\<rparr>)
   \<and> pc ((boot [0x00, 0xEE])\<lparr>sp := - 16\<rparr>) + 1 < 4096
   \<and> fetch ((boot [0x00, 0xEE])\<lparr>sp := - 16\<rparr>) = Inr 0x00EE
   \<and> emulate_cycle ((boot [0x00, 0xEE])\<lparr>sp := - 16\<rparr>)
       = Inl (IndexError, (boot [0x00, 0xEE])\<lparr>pc := 0x202, sp := - 17\<rparr>)
   \<and> pc ((boot [])\<lparr>pc := - 4097\<rparr>) + 1 < 4096
   \<and> emulate_cycle ((boot [])\<lparr>pc := - 4097\<rparr>) = Inl (IndexError, (boot [])\<lparr>pc := - 4097\<rparr>)"
proof -
  have a: "emulate_cycle ((boot [])\<lparr>pc := 4095\<rparr>) = Inl (IndexError, (boot [])\<lparr>pc := 4095\<rparr>)"
    by (rule emulate_cycle_fetch_raises) (rule fetch_past_the_end)
  have "fetch ((boot [])\<lparr>pc := - 4097\<rparr>) = Inl IndexError"
    by (simp add: fetch_Inl_iff length_memory_boot)
  then have c: "emulate_cycle ((boot [])\<lparr>pc := - 4097\<rparr>) = Inl (IndexError, (boot [])\<lparr>pc := - 4097\<rparr>)"
    by (rule emulate_cycle_fetch_raises)
  have "fetch ((boot [0x00, 0xEE])\<lparr>sp := - 16\<rparr>) = fetch (boot [0x00, 0xEE])"
    by (rule fetch_cong) simp_all
  then have f: "fetch ((boot [0x00, 0xEE])\<lparr>sp := - 16\<rparr>) = Inr 0x00EE"
    by (simp add: fetch_boot2)
  have "getitem (stack ((boot [0x00, 0xEE])\<lparr>sp := - 16\<rparr>)) (sp ((boot [0x00, 0xEE])\<lparr>sp := - 16\<rparr>) - 1)
        = Inl IndexError"
    by (simp add: boot_fields getitem_def py_index_def)
  then have b: "emulate_cycle ((boot [0x00, 0xEE])\<lparr>sp := - 16\<rparr>)
       = Inl (IndexError, (boot [0x00, 0xEE])\<lparr>pc := 0x202, sp := - 17\<rparr>)"
    by (simp add: emulate_cycle_RET [OF f] boot_fields)
  show ?thesis using a b c f by (simp add: boot_fields)
qed

subsection \<open>A program that does not fit\<close>

text \<open>
  \<^bold>\<open>C5\<close> (amended). \<^verbatim>\<open>load_rom\<close> has no length check. On a file of more than
  \<^verbatim>\<open>4096 - 0x200\<close> bytes it stores the first 3584 bytes into \<^verbatim>\<open>memory[0x200:4096]\<close> and
  then raises \<^verbatim>\<open>IndexError\<close> at the store to index 4096. The memory keeps its 4096 cells, so
  nothing is written past its end, and no other attribute changes.
\<close>

theorem load_rom_too_large_raises_IndexError:
  assumes "fs rom_path = Some rom"
    and "length (memory s) = CHIP8_MEMORY_SIZE"
    and "CHIP8_MEMORY_SIZE - 0x200 < length rom"
  shows "load_rom fs s rom_path =
           Inl (IndexError,
                s\<lparr>memory := take 0x200 (memory s)
                               @ map uint (take (CHIP8_MEMORY_SIZE - 0x200) rom)\<rparr>)
       \<and> length (take 0x200 (memory s) @ map uint (take (CHIP8_MEMORY_SIZE - 0x200) rom))
           = CHIP8_MEMORY_SIZE"
  using assms by (simp add: load_rom_overflow)

text \<open>
  The theorem on a file of 3585 bytes.
\<close>

theorem load_rom_too_large_raises_IndexError_witness:
  "[''big.ch8'' \<mapsto> replicate 3585 (0xFF :: byte)] ''big.ch8'' = Some (replicate 3585 0xFF)
   \<and> length (memory chip8_init) = CHIP8_MEMORY_SIZE
   \<and> CHIP8_MEMORY_SIZE - 0x200 < length (replicate 3585 (0xFF :: byte))
   \<and> load_rom [''big.ch8'' \<mapsto> replicate 3585 0xFF] chip8_init ''big.ch8'' =
       Inl (IndexError,
            chip8_init\<lparr>memory := take 0x200 (memory chip8_init)
               @ map uint (take (CHIP8_MEMORY_SIZE - 0x200) (replicate 3585 (0xFF :: byte)))\<rparr>)"
proof -
  have opened: "[''big.ch8'' \<mapsto> replicate 3585 (0xFF :: byte)] ''big.ch8'' = Some (replicate 3585 0xFF)"
    and large: "CHIP8_MEMORY_SIZE - 0x200 < length (replicate 3585 (0xFF :: byte))"
    by simp_all
  from load_rom_too_large_raises_IndexError
    [of "[''big.ch8'' \<mapsto> replicate 3585 0xFF]" "''big.ch8''" "replicate 3585 0xFF" chip8_init,
     OF opened length_memory_init large]
  show ?thesis using opened length_memory_init large by blast
qed

text \<open>
  The stated form of C5 fails on a file of 3585 bytes \<^verbatim>\<open>FF\<close>: the load raises the built-in
  \<^verbatim>\<open>IndexError\<close>, and the cell \<^verbatim>\<open>memory[0x200]\<close>, 0 before, holds \<^verbatim>\<open>0xFF\<close> afterwards.
\<close>

theorem load_rom_too_large_overwrites_then_raises:
  "length (replicate 3585 (0xFF :: byte)) = 4096 - 0x200 + 1
   \<and> load_rom [''big.ch8'' \<mapsto> replicate 3585 0xFF] chip8_init ''big.ch8'' =
       Inl (IndexError,
            chip8_init\<lparr>memory := take 0x200 (memory chip8_init) @ replicate 3584 0xFF\<rparr>)
   \<and> memory chip8_init ! 0x200 = 0
   \<and> (take 0x200 (memory chip8_init) @ replicate 3584 0xFF) ! 0x200 = (0xFF :: int)"
proof -
  have "load_rom [''big.ch8'' \<mapsto> replicate 3585 0xFF] chip8_init ''big.ch8'' =
       Inl (IndexError,
            chip8_init\<lparr>memory := take 0x200 (memory chip8_init)
               @ map uint (take (length (memory chip8_init) - 0x200) (replicate 3585 (0xFF :: byte)))\<rparr>)"
    by (rule load_rom_overflow) (simp_all add: length_memory_init)
  moreover have "map uint (take (length (memory chip8_init) - 0x200) (replicate 3585 (0xFF :: byte)))
                 = replicate 3584 0xFF"
    by (simp add: length_memory_init)
  moreover have "(take 0x200 (memory chip8_init) @ replicate 3584 0xFF) ! 0x200 = (0xFF :: int)"
    by (simp add: nth_append length_memory_init)
  ultimately show ?thesis by (simp add: memory_init_nth)
qed

subsection \<open>\<^verbatim>\<open>Fx0A\<close> and the keypad\<close>

text \<open>
  \<^bold>\<open>C9\<close> (amended). There is no waiting state. An opcode of the form \<^verbatim>\<open>Fx0A\<close> runs the last
  branch of the dispatch: whatever the keypad holds, the call prints \<^verbatim>\<open>Unknown opcode: ...\<close>,
  moves the program counter by 2 and writes no register. The keypad never influences a
  call: after \<^verbatim>\<open>set_keys(ks)\<close> the outcome is the one without it, with \<open>ks\<close> as the keypad.
  No call, returning or raising, changes the registers \<^verbatim>\<open>v\<close> or the keypad.
\<close>

theorem key_wait_not_implemented:
  "(fetch s = Inr opcode \<and> opcode AND 0xF0FF = 0xF00A \<longrightarrow>
      emulate_cycle (set_keys s ks) =
        Inr ((''Unknown opcode: '' @ format_X opcode)
               # (if sound_timer s = 1 then [''BEEP!''] else []),
             s\<lparr>pc := pc s + 2,
               delay_timer := (if 0 < delay_timer s then delay_timer s - 1 else delay_timer s),
               sound_timer := (if 0 < sound_timer s then sound_timer s - 1 else sound_timer s),
               keys := ks\<rparr>))
   \<and> emulate_cycle (set_keys t ks) =
       (case emulate_cycle t of
          Inl (e, t') \<Rightarrow> Inl (e, set_keys t' ks)
        | Inr (out, t') \<Rightarrow> Inr (out, set_keys t' ks))
   \<and> (emulate_cycle t = Inr (out, t') \<or> emulate_cycle t = Inl (e, t') \<longrightarrow>
        v t' = v t \<and> keys t' = keys t)"
proof (intro conjI impI)
  assume a: "fetch s = Inr opcode \<and> opcode AND 0xF0FF = 0xF00A"
  then have "opcode \<noteq> 0x00E0" and "opcode \<noteq> 0x00EE" by auto
  with a have "emulate_cycle s =
        Inr ((''Unknown opcode: '' @ format_X opcode)
               # (if sound_timer s = 1 then [''BEEP!''] else []),
             s\<lparr>pc := pc s + 2,
               delay_timer := (if 0 < delay_timer s then delay_timer s - 1 else delay_timer s),
               sound_timer := (if 0 < sound_timer s then sound_timer s - 1 else sound_timer s)\<rparr>)"
    by (simp add: emulate_cycle_unknown_explicit)
  then show "emulate_cycle (set_keys s ks) =
        Inr ((''Unknown opcode: '' @ format_X opcode)
               # (if sound_timer s = 1 then [''BEEP!''] else []),
             s\<lparr>pc := pc s + 2,
               delay_timer := (if 0 < delay_timer s then delay_timer s - 1 else delay_timer s),
               sound_timer := (if 0 < sound_timer s then sound_timer s - 1 else sound_timer s),
               keys := ks\<rparr>)"
    unfolding emulate_cycle_set_keys by (simp add: set_keys_def)
next
  show "emulate_cycle (set_keys t ks) =
       (case emulate_cycle t of
          Inl (e, t') \<Rightarrow> Inl (e, set_keys t' ks)
        | Inr (out, t') \<Rightarrow> Inr (out, set_keys t' ks))"
    by (rule emulate_cycle_set_keys)
next
  assume "emulate_cycle t = Inr (out, t') \<or> emulate_cycle t = Inl (e, t')"
  then show "v t' = v t" and "keys t' = keys t"
    by (rule emulate_cycle_frame)+
qed

lemma fetch_key_wait_machine: "fetch key_wait_machine = Inr 0xF30A"
  by (simp add: key_wait_machine_def fetch_boot2)

lemma key_wait_machine_step:
  "emulate_cycle key_wait_machine =
     Inr ([''Unknown opcode: F30A''], key_wait_machine\<lparr>pc := 0x202\<rparr>)"
  by (simp add: emulate_cycle_unknown_explicit [OF fetch_key_wait_machine])
     (simp add: key_wait_machine_def boot_fields format_X_def hex_nat.simps hex_digit_def)

text \<open>
  The theorem on the machine booted with \<^verbatim>\<open>F3 0A\<close>, key 5 pressed.
\<close>

theorem key_wait_not_implemented_witness:
  "fetch key_wait_machine = Inr 0xF30A \<and> (0xF30A :: int) AND 0xF0FF = 0xF00A
   \<and> emulate_cycle (set_keys key_wait_machine (no_keys[5 := 1])) =
       Inr ([''Unknown opcode: F30A''], key_wait_machine\<lparr>pc := 0x202, keys := no_keys[5 := 1]\<rparr>)
   \<and> emulate_cycle key_wait_machine =
       Inr ([''Unknown opcode: F30A''], key_wait_machine\<lparr>pc := 0x202\<rparr>)
   \<and> v (key_wait_machine\<lparr>pc := 0x202\<rparr>) = v key_wait_machine
   \<and> keys (key_wait_machine\<lparr>pc := 0x202\<rparr>) = keys key_wait_machine"
proof -
  have shape: "(0xF30A :: int) AND 0xF0FF = 0xF00A" by simp
  from key_wait_not_implemented [of key_wait_machine "0xF30A" "no_keys[5 := 1]"
      key_wait_machine "[''Unknown opcode: F30A'']" "key_wait_machine\<lparr>pc := 0x202\<rparr>"]
    fetch_key_wait_machine shape key_wait_machine_step
  show ?thesis
    by (simp add: key_wait_machine_def boot_fields format_X_def hex_nat.simps hex_digit_def)
qed

text \<open>
  The stated form of C9 fails on the machine booted with \<^verbatim>\<open>F3 0A\<close>. The first call, on
  \<^verbatim>\<open>F30A\<close>, leaves the program counter at \<^verbatim>\<open>0x202\<close>; the second call, with no key pressed,
  moves it to \<^verbatim>\<open>0x204\<close>; and when key 5 is pressed before the second call, the registers
  still hold zeros afterwards.
\<close>

theorem key_wait_pc_advances_without_key:
  "fetch key_wait_machine = Inr 0xF30A
   \<and> steps [no_keys] key_wait_machine =
       Inr ([''Unknown opcode: F30A''], key_wait_machine\<lparr>pc := 0x202, keys := no_keys\<rparr>)
   \<and> steps [no_keys, no_keys] key_wait_machine =
       Inr ([''Unknown opcode: F30A'', ''Unknown opcode: 0''],
            key_wait_machine\<lparr>pc := 0x204, keys := no_keys\<rparr>)
   \<and> steps [no_keys, no_keys[5 := 1]] key_wait_machine =
       Inr ([''Unknown opcode: F30A'', ''Unknown opcode: 0''],
            key_wait_machine\<lparr>pc := 0x204, keys := no_keys[5 := 1]\<rparr>)
   \<and> v key_wait_machine = replicate CHIP8_REGISTER_COUNT 0"
  using fetch_key_wait_machine
  by (simp add: key_wait_machine_def emulate_cycle_def fetch_in_range update_timers_eq set_keys_def
      length_memory_boot memory_boot_nth boot_fields format_X_def hex_nat.simps hex_digit_def)

subsection \<open>A program that returns until the stack read fails\<close>

lemma steps_append:
  "steps (kss @ kss') s =
     (case steps kss s of
        Inl r \<Rightarrow> Inl r
      | Inr (out, s') \<Rightarrow>
          (case steps kss' s' of
             Inl r \<Rightarrow> Inl r
           | Inr (out', s'') \<Rightarrow> Inr (out @ out', s'')))"
  by (induction kss arbitrary: s) (auto split: sum.splits prod.splits)

lemma fontset_bytes: "k < 80 \<Longrightarrow> 16 \<le> CHIP8_FONTSET ! k \<and> 0 \<le> CHIP8_FONTSET ! k"
proof -
  have "\<forall>x \<in> set CHIP8_FONTSET. 16 \<le> x" by (simp add: CHIP8_FONTSET_def)
  moreover assume "k < 80"
  then have "CHIP8_FONTSET ! k \<in> set CHIP8_FONTSET" by (simp add: length_CHIP8_FONTSET)
  ultimately show ?thesis by fastforce
qed

lemma low_memory_boot:
  "length rom \<le> 3584 \<Longrightarrow> j < 0x200 \<Longrightarrow>
   memory (boot rom) ! j = (if j < 80 then CHIP8_FONTSET ! j else 0)"
  by (simp add: boot_fits length_memory_init nth_append memory_init_nth)

lemma low_opcode_unknown:
  assumes "j < 256"
  shows "\<exists>opcode. fetch (ret_loop k (2 * int j)) = Inr opcode \<and> opcode \<noteq> 0x00E0 \<and> opcode \<noteq> 0x00EE"
proof -
  let ?m = "memory (boot [0x00, 0xEE])"
  have f: "fetch (ret_loop k (2 * int j)) = Inr (push_bit 8 (?m ! (2 * j)) OR ?m ! (2 * j + 1))"
    using assms
    by (simp add: ret_loop_def fetch_in_range length_memory_boot nat_mult_distrib nat_add_distrib)
  show ?thesis
  proof (cases "j < 40")
    case True
    then have hi: "16 \<le> ?m ! (2 * j)" and lo: "0 \<le> ?m ! (2 * j + 1)"
      using fontset_bytes [of "2 * j"] fontset_bytes [of "2 * j + 1"]
      by (simp_all add: low_memory_boot)
    from hi have "4096 \<le> push_bit 8 (?m ! (2 * j))" by (simp add: push_bit_eq_mult)
    also from lo have "\<dots> \<le> push_bit 8 (?m ! (2 * j)) OR ?m ! (2 * j + 1)"
      by (rule or_greater_eq)
    finally show ?thesis using f by auto
  next
    case False
    with assms have "?m ! (2 * j) = 0" and "?m ! (2 * j + 1) = 0"
      by (simp_all add: low_memory_boot)
    with f show ?thesis by simp
  qed
qed

lemma ret_loop_walk_step:
  assumes "j < 256"
  shows "\<exists>out. emulate_cycle (set_keys (ret_loop k (2 * int j)) no_keys)
               = Inr (out, ret_loop k (2 * int (Suc j)))"
proof -
  from low_opcode_unknown [OF assms] obtain opcode
    where f: "fetch (ret_loop k (2 * int j)) = Inr opcode"
      and "opcode \<noteq> 0x00E0" and "opcode \<noteq> 0x00EE"
    by blast
  then show ?thesis
    unfolding emulate_cycle_set_keys
    by (simp add: emulate_cycle_unknown_explicit [where opcode = opcode])
       (simp add: ret_loop_def set_keys_def no_keys_def boot_fits chip8_init_def)
qed

lemma ret_loop_walk:
  "j + n = 256 \<Longrightarrow>
   \<exists>outs. steps (replicate n no_keys) (ret_loop k (2 * int j)) = Inr (outs, ret_loop k 0x200)"
proof (induction n arbitrary: j)
  case 0
  then show ?case by simp
next
  case (Suc n)
  then have "j < 256" by simp
  from ret_loop_walk_step [OF this] obtain out
    where one: "emulate_cycle (set_keys (ret_loop k (2 * int j)) no_keys)
                  = Inr (out, ret_loop k (2 * int (Suc j)))"
    by blast
  from Suc.prems have "Suc j + n = 256" by simp
  from Suc.IH [OF this] obtain outs
    where "steps (replicate n no_keys) (ret_loop k (2 * int (Suc j))) = Inr (outs, ret_loop k 0x200)"
    by blast
  with one show ?case by simp
qed

lemma ret_loop_return:
  assumes "- 15 \<le> k" and "k \<le> 0"
  shows "emulate_cycle (set_keys (ret_loop k 0x200) no_keys) = Inr ([], ret_loop (k - 1) 0)"
proof -
  have f: "fetch (ret_loop k 0x200) = Inr 0x00EE"
  proof -
    have "fetch (ret_loop k 0x200) = fetch (boot [0x00, 0xEE])"
      by (rule fetch_cong) (simp_all add: ret_loop_def boot_fields)
    then show ?thesis by (simp add: fetch_boot2)
  qed
  have "getitem (stack (ret_loop k 0x200)) (sp (ret_loop k 0x200) - 1) = Inr 0"
    using assms by (simp add: ret_loop_def boot_fields getitem_def py_index_def)
  then have "emulate_cycle (ret_loop k 0x200)
             = Inr (update_timers [] ((ret_loop k 0x200)\<lparr>sp := sp (ret_loop k 0x200) - 1, pc := 0\<rparr>))"
    by (simp add: emulate_cycle_RET [OF f])
  then show ?thesis
    unfolding emulate_cycle_set_keys
    by (simp add: update_timers_eq)
       (simp add: ret_loop_def set_keys_def no_keys_def boot_fits chip8_init_def)
qed

lemma ret_loop_round:
  assumes "- 15 \<le> k" and "k \<le> 0"
  shows "\<exists>outs. steps (replicate 257 no_keys) (ret_loop k 0x200) = Inr (outs, ret_loop (k - 1) 0x200)"
proof -
  from ret_loop_walk [of 0 256 "k - 1"] obtain outs
    where "steps (replicate 256 no_keys) (ret_loop (k - 1) 0) = Inr (outs, ret_loop (k - 1) 0x200)"
    by auto
  moreover have "replicate 257 no_keys = no_keys # replicate 256 no_keys"
    by (simp add: replicate_Suc [symmetric] del: replicate_Suc)
  ultimately show ?thesis using ret_loop_return [OF assms] by simp
qed

lemma ret_loop_rounds:
  "n \<le> 16 \<Longrightarrow>
   \<exists>outs. steps (replicate (n * 257) no_keys) (boot [0x00, 0xEE]) = Inr (outs, ret_loop (- int n) 0x200)"
proof (induction n)
  case 0
  have "ret_loop 0 0x200 = boot [0x00, 0xEE]"
    by (simp add: ret_loop_def boot_fits chip8_init_def)
  then show ?case by simp
next
  case (Suc n)
  then obtain outs
    where a: "steps (replicate (n * 257) no_keys) (boot [0x00, 0xEE]) = Inr (outs, ret_loop (- int n) 0x200)"
    by auto
  from Suc.prems have "- 15 \<le> - int n" and "- int n \<le> 0" by simp_all
  from ret_loop_round [OF this] obtain outs'
    where "steps (replicate 257 no_keys) (ret_loop (- int n) 0x200)
             = Inr (outs', ret_loop (- int n - 1) 0x200)"
    by blast
  moreover have "- int n - 1 = - int (Suc n)" by simp
  ultimately have b: "steps (replicate 257 no_keys) (ret_loop (- int n) 0x200)
                        = Inr (outs', ret_loop (- int (Suc n)) 0x200)"
    by (simp only:)
  have "replicate (Suc n * 257) no_keys = replicate (n * 257) no_keys @ replicate 257 no_keys"
    by (simp add: replicate_add [symmetric] del: replicate_Suc)
  with a b show ?case by (simp add: steps_append)
qed

text \<open>
  The machine with the stack pointer at \<open>- 16\<close> is one the program reaches. Booted with
  \<^verbatim>\<open>00 EE\<close>, each return sets the program counter to 0, the 256 unknown opcodes of the low
  memory lead back to \<^verbatim>\<open>0x200\<close>, and after sixteen such rounds, 4112 calls, the next call
  is the return that raises.
\<close>

lemma ret_loop_reaches_pointer_minus_16:
  "\<exists>outs. steps (replicate 4112 no_keys) (boot [0x00, 0xEE])
            = Inr (outs, (boot [0x00, 0xEE])\<lparr>sp := - 16\<rparr>)"
proof -
  have "ret_loop (- 16) 0x200 = (boot [0x00, 0xEE])\<lparr>sp := - 16\<rparr>"
    by (simp add: ret_loop_def boot_fits chip8_init_def)
  then show ?thesis using ret_loop_rounds [of 16] by simp
qed

end
